theory Spec2Isabelle
  imports Complex_Main
begin

section \<open>The humidifier simulation of \<^verbatim>\<open>sim_humidificador.py\<close>\<close>

text \<open>
  The script integrates the vapour mass balance of an enclosure with explicit Euler
  steps. Its three helpers turn a temperature and a relative humidity into a vapour
  density; \<^verbatim>\<open>simular_relleno\<close> runs the loop and returns the 6-tuple
  \<^verbatim>\<open>(tiempos, rhos, t, masa_inyectada, masa_condensada, rho_sat)\<close>.

  The arguments stand for finite Python floats, and the arithmetic of the mass
  balance is modelled on \<^typ>\<open>real\<close>: the model computes exactly where the program
  rounds every operation. One rounding decides how many iterations the loop makes,
  \<^verbatim>\<open>int(tiempo_max / dt)\<close>: that quotient is modelled with the rounding of IEEE 754
  binary64 (to nearest, ties to even) and with its overflow to infinity, on which
  \<^verbatim>\<open>int\<close> raises \<^verbatim>\<open>OverflowError\<close>. The saturation helpers have, besides their
  real-valued form, a form that rounds every operation, \<open>rho_saturacion_float\<close>.
  The \<^verbatim>\<open>OverflowError\<close> of \<^verbatim>\<open>math.exp\<close> on arguments above about 709 is outside
  the model (for temperatures above \<open>-243.12\<close> the argument of \<^verbatim>\<open>math.exp\<close> stays
  below \<open>17.62\<close>). Every division of the source is a float division, which raises
  \<^verbatim>\<open>ZeroDivisionError\<close> on a zero divisor; the model returns errors as values.
\<close>

subsection \<open>Errors and arguments\<close>

datatype error = ZeroDivisionError | OverflowError

text \<open>The keyword arguments of \<^verbatim>\<open>simular_relleno\<close>, under the source's names.\<close>

record config =
  V :: real
  dotm :: real
  T :: real
  HR0 :: real
  HR_out :: real
  ACH :: real
  k_cond :: real
  modo_cond :: string
  dt :: real
  HR_objetivo :: real
  tiempo_max :: real

text \<open>The variables the loop body assigns.\<close>

record estado =
  rho_v :: real
  tiempos :: "real list"
  rhos :: "real list"
  masa_condensada :: real
  masa_inyectada :: real

text \<open>The returned tuple: times, densities, arrival time, injected and condensed
  mass, saturation density.\<close>

type_synonym resultado = "real list \<times> real list \<times> real option \<times> real \<times> real \<times> real"

subsection \<open>Rounding to a float\<close>

text \<open>A finite binary64 float is \<open>m * 2 ^ e\<close> with an integer \<open>\<bar>m\<bar> < 2 ^ 53\<close> and
  \<open>-1074 \<le> e \<le> 971\<close>. \<open>exponente x\<close> is the binary exponent of \<open>x\<close>, not below
  that of the subnormal numbers; \<open>ulp x\<close> is the distance between the floats around
  \<open>x\<close>; \<open>redondear x\<close> is the float nearest to \<open>x\<close>, the one with the even
  significand when two are equally near. A result of \<open>2 ^ 1024 - 2 ^ 970\<close> or more in
  absolute value rounds to infinity: that is \<open>desborda\<close>.\<close>

definition exponente :: "real \<Rightarrow> int" where
  "exponente x = max \<lfloor>log 2 \<bar>x\<bar>\<rfloor> (- 1022)"

definition ulp :: "real \<Rightarrow> real" where
  "ulp x = 2 powi (exponente x - 52)"

definition redondeo_par :: "real \<Rightarrow> int" where
  "redondeo_par y =
     (let n = \<lfloor>y\<rfloor>; r = y - of_int n
      in if r < 1 / 2 then n else if 1 / 2 < r then n + 1
         else if even n then n else n + 1)"

definition redondear :: "real \<Rightarrow> real" where
  "redondear x = (if x = 0 then 0 else of_int (redondeo_par (x / ulp x)) * ulp x)"

definition desborda :: "real \<Rightarrow> bool" where
  "desborda x \<longleftrightarrow> 2 ^ 1024 - 2 ^ 970 \<le> \<bar>x\<bar>"

subsection \<open>Saturation model\<close>

text \<open>The three helpers as real-valued functions: the formulas that the program
  evaluates in floating point.\<close>

definition presion_saturacion :: "real \<Rightarrow> error + real" where
  "presion_saturacion T_c =
     (if 243.12 + T_c = 0 then Inl ZeroDivisionError
      else Inr (6.112 * exp ((17.62 * T_c) / (243.12 + T_c))))"

definition rho_saturacion :: "real \<Rightarrow> error + real" where
  "rho_saturacion T_c =
     (case presion_saturacion T_c of
        Inl e \<Rightarrow> Inl e
      | Inr e_s \<Rightarrow>
          (let T_k = T_c + 273.15
           in if T_k = 0 then Inl ZeroDivisionError else Inr (216.7 * e_s / T_k)))"

definition rho_desde_HR :: "real \<Rightarrow> real \<Rightarrow> error + real" where
  "rho_desde_HR HR T_c =
     (case rho_saturacion T_c of
        Inl e \<Rightarrow> Inl e
      | Inr rho \<Rightarrow> Inr ((HR / 100) * rho))"




subsection \<open>One iteration of the loop\<close>

text \<open>The local variables of the loop body, each as a function of the arguments and of
  the density \<open>rho\<close> at the start of the step.\<close>

definition masa_in :: "config \<Rightarrow> real" where
  "masa_in c = dotm c * dt c"

definition masa_actual :: "config \<Rightarrow> real \<Rightarrow> real" where
  "masa_actual c rho = rho * V c"

definition Q :: "config \<Rightarrow> real" where
  "Q c = ACH c * V c / 60"

definition perdida_vent :: "config \<Rightarrow> real \<Rightarrow> real \<Rightarrow> real" where
  "perdida_vent c rho_out rho = Q c * (rho - rho_out) * dt c"

definition perdida_cond :: "config \<Rightarrow> real \<Rightarrow> real \<Rightarrow> real" where
  "perdida_cond c rho_sat rho =
     (if modo_cond c = ''fijo'' then min (k_cond c * dt c) (max 0 (masa_actual c rho))
      else (let exceso = max 0 (rho - rho_sat) in exceso * V c * k_cond c * dt c))"

definition nueva_masa :: "config \<Rightarrow> real \<Rightarrow> real \<Rightarrow> real \<Rightarrow> real" where
  "nueva_masa c rho_sat rho_out rho =
     masa_actual c rho + masa_in c - perdida_vent c rho_out rho - perdida_cond c rho_sat rho"

text \<open>\<^verbatim>\<open>nuevo_rho = max(0.0, nueva_masa / V)\<close>, before the saturation limit; the
  division raises when \<open>V\<close> is zero.\<close>

definition nuevo_rho :: "config \<Rightarrow> real \<Rightarrow> real \<Rightarrow> real \<Rightarrow> error + real" where
  "nuevo_rho c rho_sat rho_out rho =
     (if V c = 0 then Inl ZeroDivisionError
      else Inr (max 0 (nueva_masa c rho_sat rho_out rho / V c)))"

text \<open>The body of the \<^verbatim>\<open>for\<close> loop up to the two \<^verbatim>\<open>append\<close> calls, for the index
  \<open>i\<close> of \<^verbatim>\<open>range(pasos_max)\<close>.\<close>

definition paso :: "config \<Rightarrow> real \<Rightarrow> real \<Rightarrow> nat \<Rightarrow> estado \<Rightarrow> error + estado" where
  "paso c rho_sat rho_out i s =
     (let t = (real i + 1) * dt c
      in case nuevo_rho c rho_sat rho_out (rho_v s) of
           Inl e \<Rightarrow> Inl e
         | Inr nr \<Rightarrow>
             (let (mc, nr') =
                    (if nr > rho_sat
                     then (masa_condensada s + (nr - rho_sat) * V c, rho_sat)
                     else (masa_condensada s, nr))
              in Inr \<lparr> rho_v = nr',
                       tiempos = tiempos s @ [t],
                       rhos = rhos s @ [nr'],
                       masa_condensada = mc + perdida_cond c rho_sat (rho_v s),
                       masa_inyectada = masa_inyectada s + masa_in c \<rparr>))"

text \<open>The mass that the saturation limit moves to the condensed total when the
  density \<open>nr\<close> computed by the balance exceeds \<open>rho_sat\<close> (the second
  \<^verbatim>\<open>exceso\<close> of the loop body), and 0 when the limit does not apply.\<close>

definition exceso_limite :: "config \<Rightarrow> real \<Rightarrow> real \<Rightarrow> real" where
  "exceso_limite c rho_sat nr = (if nr > rho_sat then (nr - rho_sat) * V c else 0)"

subsection \<open>The loop and the simulation\<close>

definition devolver :: "real option \<Rightarrow> real \<Rightarrow> estado \<Rightarrow> resultado" where
  "devolver t rho_sat s =
     (tiempos s, rhos s, t, masa_inyectada s, masa_condensada s, rho_sat)"

text \<open>\<open>bucle c rho_sat rho_out rho_objetivo i k s\<close> runs the iterations
  \<open>i, i + 1, \<dots>, i + k - 1\<close> from the state \<open>s\<close>: it returns with the time of the
  step as soon as the density reaches \<open>rho_objetivo\<close>, and with \<open>None\<close> when the
  range is exhausted.\<close>

fun bucle :: "config \<Rightarrow> real \<Rightarrow> real \<Rightarrow> real \<Rightarrow> nat \<Rightarrow> nat \<Rightarrow> estado \<Rightarrow> error + resultado" where
  "bucle c rho_sat rho_out rho_objetivo i 0 s = Inr (devolver None rho_sat s)"
| "bucle c rho_sat rho_out rho_objetivo i (Suc k) s =
     (case paso c rho_sat rho_out i s of
        Inl e \<Rightarrow> Inl e
      | Inr s' \<Rightarrow>
          if rho_v s' \<ge> rho_objetivo
          then Inr (devolver (Some ((real i + 1) * dt c)) rho_sat s')
          else bucle c rho_sat rho_out rho_objetivo (Suc i) k s')"

text \<open>The assignments before the loop: the first sample is taken at time 0, both
  totals start at 0.\<close>

definition estado_inicial :: "real \<Rightarrow> estado" where
  "estado_inicial rho_v0 =
     \<lparr> rho_v = rho_v0, tiempos = [0], rhos = [rho_v0],
       masa_condensada = 0, masa_inyectada = 0 \<rparr>"

text \<open>\<^verbatim>\<open>int(tiempo_max / dt)\<close>: the float division raises on \<open>dt = 0\<close>; its
  result is the rounded quotient, or infinity, on which \<^verbatim>\<open>int\<close> raises; \<^verbatim>\<open>int\<close>
  truncates towards zero.\<close>

definition pasos_max :: "config \<Rightarrow> error + int" where
  "pasos_max c =
     (if dt c = 0 then Inl ZeroDivisionError
      else if desborda (tiempo_max c / dt c) then Inl OverflowError
      else (let q = redondear (tiempo_max c / dt c)
            in Inr (if 0 \<le> q then \<lfloor>q\<rfloor> else \<lceil>q\<rceil>)))"

text \<open>\<^verbatim>\<open>range(n)\<close> is empty for \<open>n \<le> 0\<close>, so the loop makes \<open>nat n\<close> iterations.\<close>

definition simular_relleno :: "config \<Rightarrow> error + resultado" where
  "simular_relleno c =
     (case rho_saturacion (T c) of
        Inl e \<Rightarrow> Inl e
      | Inr rho_sat \<Rightarrow>
      (case rho_desde_HR (HR0 c) (T c) of
        Inl e \<Rightarrow> Inl e
      | Inr rho_v0 \<Rightarrow>
      (case rho_desde_HR (HR_out c) (T c) of
        Inl e \<Rightarrow> Inl e
      | Inr rho_out \<Rightarrow>
      (let rho_objetivo = (HR_objetivo c / 100) * rho_sat
       in case pasos_max c of
            Inl e \<Rightarrow> Inl e
          | Inr n \<Rightarrow>
              bucle c rho_sat rho_out rho_objetivo 0 (nat n) (estado_inicial rho_v0)))))"

subsection \<open>Example arguments\<close>

text \<open>Arguments at 0 degrees Celsius, where the Magnus exponent is 0 and the saturation
  density is the rational number \<open>216.7 * 6.112 / 273.15\<close> (about 4.849): the runs
  on them are evaluated in the statements below.\<close>

text \<open>Fixed condensation, a humidifier stronger than the losses: three steps that
  stay below saturation.\<close>

definition ejemplo_fijo :: config where
  "ejemplo_fijo =
     \<lparr> V = 1, dotm = 2, T = 0, HR0 = 50, HR_out = 25, ACH = 6, k_cond = 1,
       modo_cond = ''fijo'', dt = 1, HR_objetivo = 100, tiempo_max = 3 \<rparr>"

text \<open>A mode string that is neither \<^verbatim>\<open>'fijo'\<close> nor \<^verbatim>\<open>'proporcional'\<close>, with
  a start above saturation and a coefficient large enough for the proportional loss
  to bring the density below saturation: the fixed loss, or no loss, would leave it
  at saturation.\<close>

definition ejemplo_modo_desconocido :: config where
  "ejemplo_modo_desconocido =
     \<lparr> V = 1, dotm = 0, T = 0, HR0 = 150, HR_out = 0, ACH = 0, k_cond = 2,
       modo_cond = ''lineal'', dt = 1, HR_objetivo = 200, tiempo_max = 1 \<rparr>"

text \<open>Proportional condensation, a start below saturation and a first step that
  overshoots it: the saturation limit applies and the target of 100 percent is
  reached.\<close>

definition ejemplo_proporcional :: config where
  "ejemplo_proporcional =
     \<lparr> V = 1, dotm = 3, T = 0, HR0 = 50, HR_out = 0, ACH = 0, k_cond = 1,
       modo_cond = ''proporcional'', dt = 1, HR_objetivo = 100, tiempo_max = 3 \<rparr>"




text \<open>A volume of zero with two steps scheduled.\<close>

definition ejemplo_volumen_cero :: config where
  "ejemplo_volumen_cero =
     \<lparr> V = 0, dotm = 1, T = 0, HR0 = 50, HR_out = 20, ACH = 6, k_cond = 1,
       modo_cond = ''fijo'', dt = 1, HR_objetivo = 100, tiempo_max = 2 \<rparr>"

text \<open>A target equal to the initial relative humidity, no injection and a fixed
  condensation loss: the density only falls.\<close>

definition ejemplo_objetivo_inicial :: config where
  "ejemplo_objetivo_inicial =
     \<lparr> V = 1, dotm = 0, T = 0, HR0 = 50, HR_out = 0, ACH = 0, k_cond = 1,
       modo_cond = ''fijo'', dt = 1, HR_objetivo = 50, tiempo_max = 2 \<rparr>"

text \<open>A horizon of \<open>2 ^ 1000\<close> minutes with a step of \<open>2 ^ -40\<close> minutes, both
  floats: the quotient \<open>2 ^ 1040\<close> is beyond the largest float.\<close>

definition ejemplo_desborde :: config where
  "ejemplo_desborde =
     \<lparr> V = 1, dotm = 1, T = 0, HR0 = 50, HR_out = 20, ACH = 6, k_cond = 1,
       modo_cond = ''fijo'', dt = 1 / 2 ^ 40, HR_objetivo = 100, tiempo_max = 2 ^ 1000 \<rparr>"

text \<open>The default arguments of \<^verbatim>\<open>simular_relleno\<close>, as the floats they are.\<close>

definition ejemplo_por_defecto :: config where
  "ejemplo_por_defecto =
     \<lparr> V = redondear 0.2, dotm = redondear 3.3, T = 20, HR0 = 0, HR_out = 40, ACH = 1,
       k_cond = redondear 0.15, modo_cond = ''fijo'', dt = redondear 0.01,
       HR_objetivo = 100, tiempo_max = 60 \<rparr>"

section \<open>Properties\<close>

subsection \<open>Rounding\<close>

text \<open>A number within half an \<open>ulp\<close> of a float rounds to that float.\<close>

lemma powr_powi_2: "2 powr real_of_int k = (2::real) powi k"
  by (rule powr_real_of_int') simp_all

lemma exponente_normal:
  assumes "2 powi e \<le> \<bar>x\<bar>" and "\<bar>x\<bar> < 2 powi (e + 1)" and "- 1022 \<le> e"
  shows "exponente x = e"
proof -
  have "(0::real) < 2 powi e" by simp
  then have pos: "0 < \<bar>x\<bar>" using assms(1) by linarith
  have "2 powr real_of_int e \<le> \<bar>x\<bar> \<and> \<bar>x\<bar> < 2 powr real_of_int (e + 1)"
    using assms(1,2) by (simp only: powr_powi_2)
  then have "\<lfloor>log 2 \<bar>x\<bar>\<rfloor> = e"
    using floor_log_eq_powr_iff[OF pos, of 2 e] by simp
  then show ?thesis using assms(3) by (simp add: exponente_def)
qed


lemma redondeo_par_cerca:
  assumes "\<bar>y - of_int m\<bar> < 1 / 2"
  shows "redondeo_par y = m"
proof (cases "of_int m \<le> y")
  case True
  then have "\<lfloor>y\<rfloor> = m" using assms by (intro floor_unique) auto
  then show ?thesis using assms True by (simp add: redondeo_par_def Let_def)
next
  case False
  then have "\<lfloor>y\<rfloor> = m - 1" using assms by (intro floor_unique) auto
  then show ?thesis using assms False by (auto simp: redondeo_par_def Let_def)
qed

lemma redondear_ulp:
  assumes "x \<noteq> 0" and "ulp x = u" and "0 < u" and "\<bar>x - of_int m * u\<bar> < u / 2"
  shows "redondear x = of_int m * u"
proof -
  have "\<bar>x / u - of_int m\<bar> = \<bar>x - of_int m * u\<bar> / u"
    using assms(3) by (simp add: field_simps abs_if)
  also have "\<dots> < (u / 2) / u" using assms(3,4) by (simp only: divide_strict_right_mono)
  finally have "\<bar>x / u - of_int m\<bar> < 1 / 2" using assms(3) by simp
  then have "redondeo_par (x / u) = m" by (rule redondeo_par_cerca)
  then show ?thesis using assms(1,2) by (simp add: redondear_def)
qed

lemma redondear_cerca:
  assumes "2 powi e \<le> \<bar>x\<bar>" and "\<bar>x\<bar> < 2 powi (e + 1)" and "- 1022 \<le> e"
    and "\<bar>x - of_int m * 2 powi (e - 52)\<bar> < 2 powi (e - 52) / 2"
  shows "redondear x = of_int m * 2 powi (e - 52)"
proof -
  have "(0::real) < 2 powi e" by simp
  then have "0 < \<bar>x\<bar>" using assms(1) by linarith
  then have x0: "x \<noteq> 0" by simp
  have ux: "ulp x = 2 powi (e - 52)"
    using exponente_normal[OF assms(1-3)] by (simp only: ulp_def)
  show ?thesis by (rule redondear_ulp[OF x0 ux _ assms(4)]) simp
qed


lemma redondear_nonneg:
  assumes "0 \<le> x"
  shows "0 \<le> redondear x"
proof -
  have u: "0 < ulp x" by (simp add: ulp_def)
  have "0 \<le> x / ulp x" using assms u by simp
  then have "0 \<le> \<lfloor>x / ulp x\<rfloor>" by simp
  then have "0 \<le> redondeo_par (x / ulp x)" by (simp add: redondeo_par_def Let_def)
  then show ?thesis using u by (simp add: redondear_def)
qed

lemma redondear_1: "redondear 1 = 1"
  using redondear_cerca[of 0 1 "2 ^ 52"] by simp

lemma redondear_2: "redondear 2 = 2"
  using redondear_cerca[of 1 2 "2 ^ 52"] by simp

lemma redondear_3: "redondear 3 = 3"
  using redondear_cerca[of 1 3 "3 * 2 ^ 51"] by simp

lemma redondear_menos_2: "redondear (- 2) = - 2"
  using redondear_cerca[of 1 "- 2" "- (2 ^ 52)"] by simp

text \<open>The floats of the decimal literals \<open>0.1\<close>, \<open>0.3\<close> and \<open>0.01\<close>, and three
  quotients as the program rounds them: \<^verbatim>\<open>1.0 / 0.1\<close> is \<open>10\<close>,
  \<^verbatim>\<open>60.0 / 0.01\<close> is \<open>6000\<close> (the real quotients of the floats are below), and
  \<^verbatim>\<open>0.3 / 0.1\<close> is the float below \<open>3\<close>.\<close>

lemma redondear_0_1: "redondear 0.1 = 7205759403792794 / 2 ^ 56"
  using redondear_cerca[of "- 4" "0.1" 7205759403792794] by simp

lemma redondear_0_3: "redondear 0.3 = 5404319552844595 / 2 ^ 54"
  using redondear_cerca[of "- 2" "0.3" 5404319552844595] by simp

lemma redondear_0_01: "redondear 0.01 = 5764607523034235 / 2 ^ 59"
  using redondear_cerca[of "- 7" "0.01" 5764607523034235] by simp

lemma redondear_0_2: "redondear 0.2 = 7205759403792794 / 2 ^ 55"
  using redondear_cerca[of "- 3" "0.2" 7205759403792794] by simp

lemma cociente_1_entre_0_1: "redondear (1 / redondear 0.1) = 10"
  unfolding redondear_0_1
  using redondear_cerca[of 3 "1 / (7205759403792794 / 2 ^ 56)" "10 * 2 ^ 49"] by simp

lemma cociente_60_entre_0_01: "redondear (60 / redondear 0.01) = 6000"
  unfolding redondear_0_01
  using redondear_cerca[of 12 "60 / (5764607523034235 / 2 ^ 59)" "6000 * 2 ^ 40"] by simp

lemma cociente_0_3_entre_0_1:
  "redondear (redondear 0.3 / redondear 0.1) = 6755399441055743 / 2 ^ 51"
  unfolding redondear_0_1 redondear_0_3
  using redondear_cerca[of 1 "(5404319552844595 / 2 ^ 54) / (7205759403792794 / 2 ^ 56)"
      6755399441055743] by simp

subsection \<open>The helpers and one step\<close>

lemma rho_saturacion_Inr:
  assumes "- 243.12 < Tc"
  shows "rho_saturacion Tc =
    Inr (216.7 * (6.112 * exp ((17.62 * Tc) / (243.12 + Tc))) / (Tc + 273.15))"
  using assms by (simp add: rho_saturacion_def presion_saturacion_def Let_def)

lemma rho_saturacion_pos:
  assumes "- 243.12 < Tc" and "rho_saturacion Tc = Inr r"
  shows "0 < r"
proof -
  have "0 < Tc + 273.15" using assms(1) by simp
  moreover have "0 < 216.7 * (6.112 * exp ((17.62 * Tc) / (243.12 + Tc)))" by simp
  ultimately have "0 < 216.7 * (6.112 * exp ((17.62 * Tc) / (243.12 + Tc))) / (Tc + 273.15)"
    by (rule divide_pos_pos[rotated])
  then show ?thesis using assms rho_saturacion_Inr[OF assms(1)] by simp
qed

lemma pasos_max_Inr:
  assumes "dt c \<noteq> 0" and "\<not> desborda (tiempo_max c / dt c)"
  shows "pasos_max c =
     Inr (if 0 \<le> redondear (tiempo_max c / dt c) then \<lfloor>redondear (tiempo_max c / dt c)\<rfloor>
          else \<lceil>redondear (tiempo_max c / dt c)\<rceil>)"
  using assms by (simp add: pasos_max_def Let_def)

lemma pasos_max_exacto:
  assumes "dt c \<noteq> 0" and "tiempo_max c / dt c = q" and "\<not> desborda q"
    and "redondear q = of_int k"
  shows "pasos_max c = Inr k"
  using assms by (simp add: pasos_max_def Let_def)

lemma no_desborda_pequeno:
  assumes "\<bar>q\<bar> \<le> 2 ^ 53"
  shows "\<not> desborda q"
proof -
  have "(2::real) ^ 53 < 2 ^ 1024 - 2 ^ 970" by simp
  then show ?thesis using assms unfolding desborda_def by linarith
qed

lemma pasos_max_por_defecto: "pasos_max ejemplo_por_defecto = Inr 6000"
proof (rule pasos_max_exacto[where q = "60 / redondear 0.01"])
  have d: "dt ejemplo_por_defecto = redondear 0.01" and t: "tiempo_max ejemplo_por_defecto = 60"
    by (simp_all add: ejemplo_por_defecto_def)
  show "dt ejemplo_por_defecto \<noteq> 0"
    unfolding d redondear_0_01 by simp
  show "tiempo_max ejemplo_por_defecto / dt ejemplo_por_defecto = 60 / redondear 0.01"
    unfolding d t ..
  show "\<not> desborda (60 / redondear 0.01)"
    unfolding redondear_0_01 by (rule no_desborda_pequeno) simp
  show "redondear (60 / redondear 0.01) = of_int 6000"
    unfolding cociente_60_entre_0_01 by simp
qed

lemma simular_relleno_bucle:
  assumes "rho_saturacion (T c) = Inr rs" and "pasos_max c = Inr n"
  shows "simular_relleno c =
     bucle c rs (HR_out c / 100 * rs) (HR_objetivo c / 100 * rs) 0 (nat n)
       (estado_inicial (HR0 c / 100 * rs))"
  using assms by (simp add: simular_relleno_def rho_desde_HR_def Let_def)

lemma nuevo_rho_Inr:
  assumes "V c \<noteq> 0"
  shows "nuevo_rho c rs ro rho = Inr (max 0 (nueva_masa c rs ro rho / V c))"
  using assms by (simp add: nuevo_rho_def)

lemma nuevo_rho_nonneg:
  assumes "nuevo_rho c rs ro rho = Inr nr"
  shows "0 \<le> nr"
  using assms by (auto simp: nuevo_rho_def split: if_splits)

lemma paso_Inr:
  assumes "nuevo_rho c rs ro (rho_v s) = Inr nr"
  shows "paso c rs ro i s =
     Inr \<lparr> rho_v = min nr rs,
           tiempos = tiempos s @ [(real i + 1) * dt c],
           rhos = rhos s @ [min nr rs],
           masa_condensada = masa_condensada s + exceso_limite c rs nr
              + perdida_cond c rs (rho_v s),
           masa_inyectada = masa_inyectada s + masa_in c \<rparr>"
  using assms by (simp add: paso_def Let_def exceso_limite_def min_def)

lemma paso_Inl:
  assumes "V c = 0"
  shows "paso c rs ro i s = Inl ZeroDivisionError"
  using assms by (simp add: paso_def nuevo_rho_def)

lemma paso_cases:
  obtains (error) "V c = 0" "paso c rs ro i s = Inl ZeroDivisionError"
  | (ok) nr where "V c \<noteq> 0" "nuevo_rho c rs ro (rho_v s) = Inr nr"
      "paso c rs ro i s =
     Inr \<lparr> rho_v = min nr rs,
           tiempos = tiempos s @ [(real i + 1) * dt c],
           rhos = rhos s @ [min nr rs],
           masa_condensada = masa_condensada s + exceso_limite c rs nr
              + perdida_cond c rs (rho_v s),
           masa_inyectada = masa_inyectada s + masa_in c \<rparr>"
  using paso_Inl paso_Inr nuevo_rho_Inr by (cases "V c = 0") blast+

lemma bucle_Inr:
  assumes "V c \<noteq> 0"
  shows "\<exists>res. bucle c rs ro obj i k s = Inr res"
proof (induction k arbitrary: i s)
  case 0
  show ?case by (simp add: devolver_def)
next
  case (Suc k)
  from paso_Inr[OF nuevo_rho_Inr[OF assms]] obtain s' where "paso c rs ro i s = Inr s'"
    by blast
  then show ?case using Suc by (simp add: devolver_def)
qed

lemma bucle_invariante:
  assumes step: "\<And>i s s'. P s \<Longrightarrow> paso c rs ro i s = Inr s' \<Longrightarrow> P s'"
    and "P s"
    and "bucle c rs ro obj i k s = Inr (ts, rhs, t, mi, mc, r)"
  shows "\<exists>s'. P s' \<and> ts = tiempos s' \<and> rhs = rhos s' \<and> mi = masa_inyectada s'
           \<and> mc = masa_condensada s' \<and> r = rs"
  using assms(2,3)
proof (induction k arbitrary: i s)
  case 0
  then show ?case by (auto simp: devolver_def)
next
  case (Suc k)
  from Suc.prems(2) obtain s' where s': "paso c rs ro i s = Inr s'"
    by (auto split: sum.splits)
  have P': "P s'" using step[OF Suc.prems(1) s'] .
  show ?case
  proof (cases "rho_v s' \<ge> obj")
    case True
    then show ?thesis using Suc.prems(2) s' P' by (auto simp: devolver_def)
  next
    case False
    then have "bucle c rs ro obj (Suc i) k s' = Inr (ts, rhs, t, mi, mc, r)"
      using Suc.prems(2) s' by simp
    from Suc.IH[OF P' this] show ?thesis .
  qed
qed

lemma paso_rhos_acotadas:
  assumes "0 \<le> rs" and "\<forall>\<rho>\<in>set (rhos s). 0 \<le> \<rho> \<and> \<rho> \<le> rs"
    and "paso c rs ro i s = Inr s'"
  shows "\<forall>\<rho>\<in>set (rhos s'). 0 \<le> \<rho> \<and> \<rho> \<le> rs"
proof (cases rule: paso_cases[of c rs ro i s])
  case error
  then show ?thesis using assms(3) by simp
next
  case (ok nr)
  have "0 \<le> nr" using nuevo_rho_nonneg[OF ok(2)] .
  then have "0 \<le> min nr rs \<and> min nr rs \<le> rs" using assms(1) by simp
  moreover have "rhos s' = rhos s @ [min nr rs]" using ok(3) assms(3) by auto
  ultimately show ?thesis using assms(2) by auto
qed

lemma simular_relleno_Inr:
  assumes "simular_relleno c = Inr res"
  obtains rs n where "rho_saturacion (T c) = Inr rs" and "pasos_max c = Inr n"
    and "bucle c rs (HR_out c / 100 * rs) (HR_objetivo c / 100 * rs) 0 (nat n)
           (estado_inicial (HR0 c / 100 * rs)) = Inr res"
  using assms
  by (auto simp: simular_relleno_def rho_desde_HR_def Let_def split: sum.splits)

lemma paso_Inr_iff:
  assumes "paso c rs ro i s = Inr s'"
  shows "V c \<noteq> 0
    \<and> rho_v s' = min (max 0 (nueva_masa c rs ro (rho_v s) / V c)) rs
    \<and> rhos s' = rhos s @ [min (max 0 (nueva_masa c rs ro (rho_v s) / V c)) rs]
    \<and> tiempos s' = tiempos s @ [(real i + 1) * dt c]
    \<and> masa_inyectada s' = masa_inyectada s + masa_in c
    \<and> masa_condensada s' = masa_condensada s
         + exceso_limite c rs (max 0 (nueva_masa c rs ro (rho_v s) / V c))
         + perdida_cond c rs (rho_v s)"
proof (cases rule: paso_cases[of c rs ro i s])
  case error
  then show ?thesis using assms by simp
next
  case (ok nr)
  have "nr = max 0 (nueva_masa c rs ro (rho_v s) / V c)"
    using ok(1,2) by (simp add: nuevo_rho_def)
  moreover have "s' = \<lparr> rho_v = min nr rs,
           tiempos = tiempos s @ [(real i + 1) * dt c],
           rhos = rhos s @ [min nr rs],
           masa_condensada = masa_condensada s + exceso_limite c rs nr
              + perdida_cond c rs (rho_v s),
           masa_inyectada = masa_inyectada s + masa_in c \<rparr>"
    using ok(3) assms by simp
  ultimately show ?thesis using ok(1) by simp
qed

subsection \<open>The runs on the example arguments\<close>

lemma ejemplo_fijo_run:
  "simular_relleno ejemplo_fijo =
     Inr ([0, 1, 2, 3],
          [1655588 / 682875, 11278418 / 3414375, 69894241 / 17071875,
           820461769 / 170718750],
          None, 6, 3, 3311176 / 682875)"
  by (simp add: simular_relleno_def rho_desde_HR_def rho_saturacion_def
      presion_saturacion_def ejemplo_fijo_def pasos_max_def desborda_def redondear_1 redondear_2
      redondear_3 redondear_menos_2 numeral_3_eq_3
      estado_inicial_def paso_def nuevo_rho_def nueva_masa_def masa_actual_def masa_in_def
      perdida_vent_def perdida_cond_def Q_def devolver_def Let_def)

lemma ejemplo_proporcional_run:
  "simular_relleno ejemplo_proporcional =
     Inr ([0, 1], [1655588 / 682875, 3311176 / 682875], Some 1, 3, 393037 / 682875,
          3311176 / 682875)"
  by (simp add: simular_relleno_def rho_desde_HR_def rho_saturacion_def
      presion_saturacion_def ejemplo_proporcional_def pasos_max_def desborda_def redondear_1 redondear_2
      redondear_3 redondear_menos_2 numeral_3_eq_3
      estado_inicial_def paso_def nuevo_rho_def nueva_masa_def masa_actual_def masa_in_def
      perdida_vent_def perdida_cond_def Q_def devolver_def Let_def)




lemma ejemplo_volumen_cero_run:
  "simular_relleno ejemplo_volumen_cero = Inl ZeroDivisionError"
  by (simp add: simular_relleno_def rho_desde_HR_def rho_saturacion_def
      presion_saturacion_def ejemplo_volumen_cero_def pasos_max_def desborda_def redondear_1 redondear_2
      redondear_3 redondear_menos_2 numeral_2_eq_2
      estado_inicial_def paso_def nuevo_rho_def Let_def)

lemma ejemplo_objetivo_inicial_run:
  "simular_relleno ejemplo_objetivo_inicial =
     Inr ([0, 1, 2], [1655588 / 682875, 972713 / 682875, 289838 / 682875],
          None, 0, 2, 3311176 / 682875)"
  by (simp add: simular_relleno_def rho_desde_HR_def rho_saturacion_def
      presion_saturacion_def ejemplo_objetivo_inicial_def pasos_max_def desborda_def redondear_1 redondear_2
      redondear_3 redondear_menos_2 numeral_2_eq_2
      estado_inicial_def paso_def nuevo_rho_def nueva_masa_def masa_actual_def masa_in_def
      perdida_vent_def perdida_cond_def Q_def devolver_def Let_def)

subsection \<open>Recorded densities stay between 0 and saturation\<close>

text \<open>
  Claim C1. For arguments with a temperature above \<open>-243.12\<close> (where the Magnus
  formula is defined and the saturation density positive), an initial relative
  humidity in \<open>[0, 100]\<close>, a positive volume and a positive time step: in every
  result that the simulation returns, every recorded density, the initial sample
  included, lies between 0 and the saturation density of the temperature; and the
  simulation does return a result, unless the quotient \<open>tiempo_max / dt\<close>
  overflows.
\<close>

theorem densidades_acotadas:
  assumes "- 243.12 < T c" and "0 \<le> HR0 c" and "HR0 c \<le> 100"
    and "0 < V c" and "0 < dt c"
  shows "(\<forall>ts rhs t mi mc rs.
            simular_relleno c = Inr (ts, rhs, t, mi, mc, rs) \<longrightarrow>
              rho_saturacion (T c) = Inr rs \<and> (\<forall>\<rho>\<in>set rhs. 0 \<le> \<rho> \<and> \<rho> \<le> rs))
       \<and> (\<not> desborda (tiempo_max c / dt c) \<longrightarrow>
            (\<exists>ts rhs t mi mc rs. simular_relleno c = Inr (ts, rhs, t, mi, mc, rs)))"
proof -
  obtain rs where rs: "rho_saturacion (T c) = Inr rs"
    using rho_saturacion_Inr[OF assms(1)] by blast
  have rs_pos: "0 < rs" using rho_saturacion_pos[OF assms(1) rs] .
  let ?s0 = "estado_inicial (HR0 c / 100 * rs)"
  have "HR0 c / 100 * rs \<le> 1 * rs"
    using assms(3) rs_pos by (intro mult_right_mono) simp_all
  moreover have "0 \<le> HR0 c / 100 * rs" using assms(2) rs_pos by simp
  ultimately have init: "\<forall>\<rho>\<in>set (rhos ?s0). 0 \<le> \<rho> \<and> \<rho> \<le> rs"
    by (simp add: estado_inicial_def)
  have cotas: "rho_saturacion (T c) = Inr r \<and> (\<forall>\<rho>\<in>set rhs. 0 \<le> \<rho> \<and> \<rho> \<le> r)"
    if ret: "simular_relleno c = Inr (ts, rhs, t, mi, mc, r)" for ts rhs t mi mc r
  proof -
    from ret obtain rs' n where rs': "rho_saturacion (T c) = Inr rs'"
      and res': "bucle c rs' (HR_out c / 100 * rs') (HR_objetivo c / 100 * rs') 0 (nat n)
             (estado_inicial (HR0 c / 100 * rs')) = Inr (ts, rhs, t, mi, mc, r)"
      by (rule simular_relleno_Inr)
    have e: "rs' = rs" using rs rs' by simp
    note res = res'[unfolded e]
    have "\<exists>s'::estado. (\<forall>\<rho>\<in>set (rhos s'). 0 \<le> \<rho> \<and> \<rho> \<le> rs) \<and> ts = tiempos s'
             \<and> rhs = rhos s' \<and> mi = masa_inyectada s' \<and> mc = masa_condensada s' \<and> r = rs"
    proof (rule bucle_invariante[where P = "\<lambda>s. \<forall>\<rho>\<in>set (rhos s). 0 \<le> \<rho> \<and> \<rho> \<le> rs",
          OF _ init res])
      fix i s s'
      assume "\<forall>\<rho>\<in>set (rhos s). 0 \<le> \<rho> \<and> \<rho> \<le> rs"
        and "paso c rs (HR_out c / 100 * rs) i s = Inr s'"
      then show "\<forall>\<rho>\<in>set (rhos s'). 0 \<le> \<rho> \<and> \<rho> \<le> rs"
        by (rule paso_rhos_acotadas[OF less_imp_le[OF rs_pos]])
    qed
    then have "\<forall>\<rho>\<in>set rhs. 0 \<le> \<rho> \<and> \<rho> \<le> r" and "r = rs" by blast+
    then show ?thesis using rs by simp
  qed
  have devuelve: "\<exists>ts rhs t mi mc rs. simular_relleno c = Inr (ts, rhs, t, mi, mc, rs)"
    if nd: "\<not> desborda (tiempo_max c / dt c)"
  proof -
    have dt0: "dt c \<noteq> 0" using assms(5) by simp
    obtain n where n: "pasos_max c = Inr n"
      using pasos_max_Inr[OF dt0 nd] by blast
    have run: "simular_relleno c =
        bucle c rs (HR_out c / 100 * rs) (HR_objetivo c / 100 * rs) 0 (nat n) ?s0"
      using simular_relleno_bucle[OF rs n] .
    have "V c \<noteq> 0" using assms(4) by simp
    from bucle_Inr[OF this] obtain res where
      "bucle c rs (HR_out c / 100 * rs) (HR_objetivo c / 100 * rs) 0 (nat n) ?s0 = Inr res"
      by blast
    then show ?thesis using run by (metis prod_cases6)
  qed
  show ?thesis using cotas devuelve by blast
qed

theorem densidades_acotadas_witness:
  "- 243.12 < T ejemplo_fijo \<and> 0 \<le> HR0 ejemplo_fijo \<and> HR0 ejemplo_fijo \<le> 100
   \<and> 0 < V ejemplo_fijo \<and> 0 < dt ejemplo_fijo
   \<and> \<not> desborda (tiempo_max ejemplo_fijo / dt ejemplo_fijo)
   \<and> simular_relleno ejemplo_fijo =
       Inr ([0, 1, 2, 3],
            [1655588 / 682875, 11278418 / 3414375, 69894241 / 17071875,
             820461769 / 170718750],
            None, 6, 3, 3311176 / 682875)
   \<and> rho_saturacion (T ejemplo_fijo) = Inr (3311176 / 682875)
   \<and> list_all (\<lambda>\<rho>. 0 \<le> \<rho> \<and> \<rho> \<le> 3311176 / 682875)
        [1655588 / 682875, 11278418 / 3414375, 69894241 / 17071875,
         820461769 / 170718750 :: real]"
proof -
  have h: "- 243.12 < T ejemplo_fijo" "0 \<le> HR0 ejemplo_fijo" "HR0 ejemplo_fijo \<le> 100"
    "0 < V ejemplo_fijo" "0 < dt ejemplo_fijo"
    by (simp_all add: ejemplo_fijo_def)
  have nd: "\<not> desborda (tiempo_max ejemplo_fijo / dt ejemplo_fijo)"
    by (rule no_desborda_pequeno) (simp add: ejemplo_fijo_def)
  from densidades_acotadas[OF h] ejemplo_fijo_run
  have "rho_saturacion (T ejemplo_fijo) = Inr (3311176 / 682875)
      \<and> (\<forall>\<rho>\<in>set [1655588 / 682875, 11278418 / 3414375, 69894241 / 17071875,
                   820461769 / 170718750 :: real]. 0 \<le> \<rho> \<and> \<rho> \<le> 3311176 / 682875)"
    by blast
  then show ?thesis using h nd ejemplo_fijo_run by (simp only: list_all_iff) simp
qed

subsection \<open>The two totals never decrease\<close>

lemma perdida_cond_nonneg:
  assumes "0 \<le> V c" and "0 \<le> dt c" and "0 \<le> k_cond c"
  shows "0 \<le> perdida_cond c rs rho"
  using assms by (simp add: perdida_cond_def Let_def)

lemma exceso_limite_nonneg:
  assumes "0 \<le> V c"
  shows "0 \<le> exceso_limite c rs nr"
  using assms by (simp add: exceso_limite_def)

lemma bucle_totales_crecen:
  assumes "0 < V c" and "0 \<le> dt c" and "0 \<le> dotm c" and "0 \<le> k_cond c"
  shows "\<exists>ts rhs t mi mc. bucle c rs ro obj i k s = Inr (ts, rhs, t, mi, mc, rs)
           \<and> masa_inyectada s \<le> mi \<and> masa_condensada s \<le> mc"
proof (induction k arbitrary: i s)
  case 0
  show ?case by (simp add: devolver_def)
next
  case (Suc k)
  have V: "V c \<noteq> 0" using assms(1) by simp
  define nr where "nr = max 0 (nueva_masa c rs ro (rho_v s) / V c)"
  define s' where "s' = \<lparr> rho_v = min nr rs,
           tiempos = tiempos s @ [(real i + 1) * dt c],
           rhos = rhos s @ [min nr rs],
           masa_condensada = masa_condensada s + exceso_limite c rs nr
              + perdida_cond c rs (rho_v s),
           masa_inyectada = masa_inyectada s + masa_in c \<rparr>"
  have p: "paso c rs ro i s = Inr s'"
    unfolding s'_def nr_def by (rule paso_Inr[OF nuevo_rho_Inr[OF V]])
  have a: "masa_inyectada s \<le> masa_inyectada s'"
    using assms(2,3) by (simp add: s'_def masa_in_def)
  have b: "masa_condensada s \<le> masa_condensada s'"
    using perdida_cond_nonneg[of c rs "rho_v s"] exceso_limite_nonneg[of c rs nr] assms
    by (simp add: s'_def)
  show ?case
  proof (cases "obj \<le> rho_v s'")
    case True
    then show ?thesis using p a b by (simp add: devolver_def)
  next
    case False
    from Suc[of "Suc i" s'] obtain ts rhs t mi mc where
      "bucle c rs ro obj (Suc i) k s' = Inr (ts, rhs, t, mi, mc, rs)"
      "masa_inyectada s' \<le> mi" "masa_condensada s' \<le> mc" by blast
    then show ?thesis using p a b False by simp
  qed
qed

text \<open>
  Claim C8. For a positive volume, a positive time step and a non-negative injection
  rate and condensation coefficient, one iteration from any state adds to the
  injected total the non-negative \<open>masa_in\<close> and to the condensed total the
  non-negative condensation loss and the non-negative excess of the saturation
  limit, so neither total decreases in a step; and from any state of the run to the
  returned totals neither total has decreased.
\<close>

theorem masas_no_decrecientes:
  assumes "0 < V c" and "0 < dt c" and "0 \<le> dotm c" and "0 \<le> k_cond c"
  shows "(\<exists>s' nr. paso c rs ro i s = Inr s' \<and> nuevo_rho c rs ro (rho_v s) = Inr nr
            \<and> masa_inyectada s' = masa_inyectada s + masa_in c
            \<and> masa_condensada s' =
                 masa_condensada s + exceso_limite c rs nr + perdida_cond c rs (rho_v s)
            \<and> 0 \<le> masa_in c \<and> 0 \<le> perdida_cond c rs (rho_v s)
            \<and> 0 \<le> exceso_limite c rs nr
            \<and> masa_inyectada s \<le> masa_inyectada s'
            \<and> masa_condensada s \<le> masa_condensada s')
       \<and> (\<exists>ts rhs t mi mc. bucle c rs ro obj i k s = Inr (ts, rhs, t, mi, mc, rs)
            \<and> masa_inyectada s \<le> mi \<and> masa_condensada s \<le> mc)"
proof -
  have V: "V c \<noteq> 0" using assms(1) by simp
  define nr where "nr = max 0 (nueva_masa c rs ro (rho_v s) / V c)"
  have nr: "nuevo_rho c rs ro (rho_v s) = Inr nr"
    unfolding nr_def by (rule nuevo_rho_Inr[OF V])
  note p = paso_Inr[OF nr, of i]
  have 1: "0 \<le> masa_in c" using assms(2,3) by (simp add: masa_in_def)
  have 2: "0 \<le> perdida_cond c rs (rho_v s)"
    using perdida_cond_nonneg[of c] assms by simp
  have 3: "0 \<le> exceso_limite c rs nr"
    using exceso_limite_nonneg[of c] assms(1) by simp
  have "\<exists>s' nr. paso c rs ro i s = Inr s' \<and> nuevo_rho c rs ro (rho_v s) = Inr nr
            \<and> masa_inyectada s' = masa_inyectada s + masa_in c
            \<and> masa_condensada s' =
                 masa_condensada s + exceso_limite c rs nr + perdida_cond c rs (rho_v s)
            \<and> 0 \<le> masa_in c \<and> 0 \<le> perdida_cond c rs (rho_v s)
            \<and> 0 \<le> exceso_limite c rs nr
            \<and> masa_inyectada s \<le> masa_inyectada s'
            \<and> masa_condensada s \<le> masa_condensada s'"
    using p nr 1 2 3 by simp
  moreover have "\<exists>ts rhs t mi mc. bucle c rs ro obj i k s = Inr (ts, rhs, t, mi, mc, rs)
            \<and> masa_inyectada s \<le> mi \<and> masa_condensada s \<le> mc"
    using bucle_totales_crecen[of c] assms by simp
  ultimately show ?thesis by blast
qed

theorem masas_no_decrecientes_witness:
  "0 < V ejemplo_fijo \<and> 0 < dt ejemplo_fijo \<and> 0 \<le> dotm ejemplo_fijo
   \<and> 0 \<le> k_cond ejemplo_fijo
   \<and> (\<exists>s' nr. paso ejemplo_fijo 5 1 0 (estado_inicial 4) = Inr s'
            \<and> nuevo_rho ejemplo_fijo 5 1 (rho_v (estado_inicial 4)) = Inr nr
            \<and> masa_inyectada s' = masa_inyectada (estado_inicial 4) + masa_in ejemplo_fijo
            \<and> masa_condensada s' =
                 masa_condensada (estado_inicial 4) + exceso_limite ejemplo_fijo 5 nr
                   + perdida_cond ejemplo_fijo 5 (rho_v (estado_inicial 4))
            \<and> 0 \<le> masa_in ejemplo_fijo
            \<and> 0 \<le> perdida_cond ejemplo_fijo 5 (rho_v (estado_inicial 4))
            \<and> 0 \<le> exceso_limite ejemplo_fijo 5 nr
            \<and> masa_inyectada (estado_inicial 4) \<le> masa_inyectada s'
            \<and> masa_condensada (estado_inicial 4) \<le> masa_condensada s')
   \<and> (\<exists>ts rhs t mi mc.
          bucle ejemplo_fijo 5 1 6 0 2 (estado_inicial 4) = Inr (ts, rhs, t, mi, mc, 5)
        \<and> masa_inyectada (estado_inicial 4) \<le> mi
        \<and> masa_condensada (estado_inicial 4) \<le> mc)"
  using masas_no_decrecientes[of ejemplo_fijo 5 1 0 "estado_inicial 4" 6 2]
  by (simp add: ejemplo_fijo_def)

subsection \<open>The mass balance of a step\<close>

lemma bucle_rhos_consecutivas:
  assumes "bucle c rs ro obj i k s = Inr (ts, rhs, t, mi, mc, r)"
    and "rhos s \<noteq> []" and "rho_v s = last (rhos s)"
    and "\<forall>j. Suc j < length (rhos s) \<longrightarrow>
           V c \<noteq> 0 \<and> rhos s ! Suc j = min (max 0 (nueva_masa c rs ro (rhos s ! j) / V c)) rs"
  shows "\<forall>j. Suc j < length rhs \<longrightarrow>
           V c \<noteq> 0 \<and> rhs ! Suc j = min (max 0 (nueva_masa c rs ro (rhs ! j) / V c)) rs"
proof -
  let ?F = "\<lambda>\<rho>. min (max 0 (nueva_masa c rs ro \<rho> / V c)) rs"
  let ?P = "\<lambda>s::estado. rhos s \<noteq> [] \<and> rho_v s = last (rhos s)
              \<and> (\<forall>j. Suc j < length (rhos s) \<longrightarrow> V c \<noteq> 0 \<and> rhos s ! Suc j = ?F (rhos s ! j))"
  have "\<exists>s'::estado. ?P s' \<and> ts = tiempos s' \<and> rhs = rhos s'
           \<and> mi = masa_inyectada s' \<and> mc = masa_condensada s' \<and> r = rs"
  proof (rule bucle_invariante[where P = ?P, OF _ _ assms(1)])
    fix i and s s' :: estado
    assume P: "?P s" and p: "paso c rs ro i s = Inr s'"
    note q = paso_Inr_iff[OF p]
    have r': "rhos s' = rhos s @ [?F (last (rhos s))]" using q P by simp
    have "\<forall>j. Suc j < length (rhos s') \<longrightarrow> V c \<noteq> 0 \<and> rhos s' ! Suc j = ?F (rhos s' ! j)"
    proof (intro allI impI)
      fix j assume j: "Suc j < length (rhos s')"
      show "V c \<noteq> 0 \<and> rhos s' ! Suc j = ?F (rhos s' ! j)"
      proof (cases "Suc j < length (rhos s)")
        case True
        then show ?thesis using P r' by (simp add: nth_append)
      next
        case False
        then have e: "Suc j = length (rhos s)" using j r' by simp
        have "last (rhos s) = rhos s ! (length (rhos s) - 1)"
          using P by (simp add: last_conv_nth)
        also have "length (rhos s) - 1 = j" using e by simp
        finally have "rhos s ! j = last (rhos s)" by simp
        then show ?thesis using e r' q by (simp add: nth_append)
      qed
    qed
    then show "?P s'" using q r' by simp
  next
    show "?P s" using assms(2-4) by simp
  qed
  then show ?thesis by blast
qed

text \<open>
  Claim C2. In a run that returns, every recorded density but the last is the start
  of a step, and there: the new mass is the current mass \<open>rho * V\<close> plus the
  injected mass \<open>dotm * dt\<close> minus the ventilation loss
  \<open>(ACH * V / 60) * (rho - rho_out) * dt\<close> minus the condensation loss; in the mode
  \<^verbatim>\<open>'fijo'\<close> the condensation loss is \<open>min (k_cond * dt) (max 0 (rho * V))\<close>; the
  new density is \<open>max 0 (nueva_masa / V)\<close>, with \<open>V\<close> not zero; and the next
  recorded density is that value, limited to the saturation density.
\<close>

theorem balance_de_masa:
  assumes "simular_relleno c = Inr (ts, rhs, t, mi, mc, rs)" and "Suc j < length rhs"
  shows "nueva_masa c rs (HR_out c / 100 * rs) (rhs ! j) =
           rhs ! j * V c + dotm c * dt c
           - (ACH c * V c / 60) * (rhs ! j - HR_out c / 100 * rs) * dt c
           - perdida_cond c rs (rhs ! j)
       \<and> (modo_cond c = ''fijo'' \<longrightarrow>
            perdida_cond c rs (rhs ! j) = min (k_cond c * dt c) (max 0 (rhs ! j * V c)))
       \<and> nuevo_rho c rs (HR_out c / 100 * rs) (rhs ! j) =
            Inr (max 0 (nueva_masa c rs (HR_out c / 100 * rs) (rhs ! j) / V c))
       \<and> rhs ! Suc j =
            min (max 0 (nueva_masa c rs (HR_out c / 100 * rs) (rhs ! j) / V c)) rs"
proof -
  from assms(1) obtain rs' n where rs': "rho_saturacion (T c) = Inr rs'"
    and run: "bucle c rs' (HR_out c / 100 * rs') (HR_objetivo c / 100 * rs') 0 (nat n)
           (estado_inicial (HR0 c / 100 * rs')) = Inr (ts, rhs, t, mi, mc, rs)"
    by (rule simular_relleno_Inr)
  have "rs = rs'"
    using bucle_invariante[where P = "\<lambda>s. True", OF _ _ run] by blast
  then have run': "bucle c rs (HR_out c / 100 * rs) (HR_objetivo c / 100 * rs) 0 (nat n)
           (estado_inicial (HR0 c / 100 * rs)) = Inr (ts, rhs, t, mi, mc, rs)"
    using run by simp
  have "\<forall>j. Suc j < length rhs \<longrightarrow>
           V c \<noteq> 0 \<and> rhs ! Suc j =
             min (max 0 (nueva_masa c rs (HR_out c / 100 * rs) (rhs ! j) / V c)) rs"
    by (rule bucle_rhos_consecutivas[OF run']) (simp_all add: estado_inicial_def)
  then have V: "V c \<noteq> 0"
    and step: "rhs ! Suc j =
      min (max 0 (nueva_masa c rs (HR_out c / 100 * rs) (rhs ! j) / V c)) rs"
    using assms(2) by blast+
  have 1: "nueva_masa c rs (HR_out c / 100 * rs) (rhs ! j) =
           rhs ! j * V c + dotm c * dt c
           - (ACH c * V c / 60) * (rhs ! j - HR_out c / 100 * rs) * dt c
           - perdida_cond c rs (rhs ! j)"
    by (simp add: nueva_masa_def masa_actual_def masa_in_def perdida_vent_def Q_def)
  have 2: "modo_cond c = ''fijo'' \<longrightarrow>
            perdida_cond c rs (rhs ! j) = min (k_cond c * dt c) (max 0 (rhs ! j * V c))"
    by (simp add: perdida_cond_def masa_actual_def)
  show ?thesis using 1 2 step nuevo_rho_Inr[OF V] by blast
qed

theorem balance_de_masa_witness:
  "simular_relleno ejemplo_fijo =
     Inr ([0, 1, 2, 3],
          [1655588 / 682875, 11278418 / 3414375, 69894241 / 17071875,
           820461769 / 170718750],
          None, 6, 3, 3311176 / 682875)
   \<and> Suc 0 < length [1655588 / 682875, 11278418 / 3414375, 69894241 / 17071875,
           820461769 / 170718750 :: real]
   \<and> modo_cond ejemplo_fijo = ''fijo''
   \<and> nueva_masa ejemplo_fijo (3311176 / 682875) (25 / 100 * (3311176 / 682875))
        (1655588 / 682875) = 11278418 / 3414375
   \<and> perdida_cond ejemplo_fijo (3311176 / 682875) (1655588 / 682875) = 1
   \<and> nuevo_rho ejemplo_fijo (3311176 / 682875) (25 / 100 * (3311176 / 682875))
        (1655588 / 682875) = Inr (11278418 / 3414375)"
  using balance_de_masa[of ejemplo_fijo "[0, 1, 2, 3]"
      "[1655588 / 682875, 11278418 / 3414375, 69894241 / 17071875, 820461769 / 170718750]"
      None 6 3 "3311176 / 682875" 0]
    ejemplo_fijo_run
  by (simp add: ejemplo_fijo_def)

subsection \<open>Proportional condensation below saturation\<close>

lemma bucle_masa_condensada:
  assumes "bucle c rs ro obj i k s = Inr (ts, rhs, t, mi, mc, r)"
    and "rhos s \<noteq> []" and "rho_v s = last (rhos s)"
    and "masa_condensada s =
           (\<Sum>\<rho>\<leftarrow>butlast (rhos s).
              exceso_limite c rs (max 0 (nueva_masa c rs ro \<rho> / V c)) + perdida_cond c rs \<rho>)"
  shows "mc = (\<Sum>\<rho>\<leftarrow>butlast rhs.
              exceso_limite c rs (max 0 (nueva_masa c rs ro \<rho> / V c)) + perdida_cond c rs \<rho>)"
proof -
  let ?G = "\<lambda>\<rho>. exceso_limite c rs (max 0 (nueva_masa c rs ro \<rho> / V c)) + perdida_cond c rs \<rho>"
  let ?P = "\<lambda>s::estado. rhos s \<noteq> [] \<and> rho_v s = last (rhos s)
              \<and> masa_condensada s = (\<Sum>\<rho>\<leftarrow>butlast (rhos s). ?G \<rho>)"
  have "\<exists>s'::estado. ?P s' \<and> ts = tiempos s' \<and> rhs = rhos s'
           \<and> mi = masa_inyectada s' \<and> mc = masa_condensada s' \<and> r = rs"
  proof (rule bucle_invariante[where P = ?P, OF _ _ assms(1)])
    fix i and s s' :: estado
    assume P: "?P s" and p: "paso c rs ro i s = Inr s'"
    note q = paso_Inr_iff[OF p]
    have "butlast (rhos s') = butlast (rhos s) @ [last (rhos s)]"
      using q P by (simp add: butlast_append)
    then have "(\<Sum>\<rho>\<leftarrow>butlast (rhos s'). ?G \<rho>) = (\<Sum>\<rho>\<leftarrow>butlast (rhos s). ?G \<rho>) + ?G (last (rhos s))"
      by simp
    then have "masa_condensada s' = (\<Sum>\<rho>\<leftarrow>butlast (rhos s'). ?G \<rho>)"
      using q P by simp
    then show "?P s'" using q by simp
  next
    show "?P s" using assms(2-4) by simp
  qed
  then show ?thesis by blast
qed

lemma perdida_cond_proporcional:
  assumes "modo_cond c \<noteq> ''fijo''"
  shows "perdida_cond c rs rho = max 0 (rho - rs) * V c * k_cond c * dt c"
  using assms by (simp add: perdida_cond_def Let_def)

text \<open>
  Claim C3. In every mode other than \<^verbatim>\<open>'fijo'\<close> the condensation loss of a step is
  \<open>max 0 (rho - rho_sat) * V * k_cond * dt\<close> for the density \<open>rho\<close> at the start of
  the step. Hence, when every density at the start of a step (every recorded density
  but the last) is strictly below saturation, the returned condensed mass is exactly
  the sum of the excesses that the saturation limit cut off, and it is 0 when no
  recorded density reaches saturation.
\<close>

theorem condensacion_proporcional:
  assumes "modo_cond c \<noteq> ''fijo''"
    and "simular_relleno c = Inr (ts, rhs, t, mi, mc, rs)"
    and "\<forall>\<rho>\<in>set (butlast rhs). \<rho> < rs"
  shows "(\<forall>\<rho>. perdida_cond c rs \<rho> = max 0 (\<rho> - rs) * V c * k_cond c * dt c)
       \<and> mc = (\<Sum>\<rho>\<leftarrow>butlast rhs.
                  exceso_limite c rs (max 0 (nueva_masa c rs (HR_out c / 100 * rs) \<rho> / V c)))
       \<and> ((\<forall>\<rho>\<in>set rhs. \<rho> < rs) \<longrightarrow> mc = 0)"
proof -
  let ?ro = "HR_out c / 100 * rs"
  let ?E = "\<lambda>\<rho>. exceso_limite c rs (max 0 (nueva_masa c rs ?ro \<rho> / V c))"
  from assms(2) obtain rs' n where
    run: "bucle c rs' (HR_out c / 100 * rs') (HR_objetivo c / 100 * rs') 0 (nat n)
           (estado_inicial (HR0 c / 100 * rs')) = Inr (ts, rhs, t, mi, mc, rs)"
    by (rule simular_relleno_Inr)
  have "rs = rs'"
    using bucle_invariante[where P = "\<lambda>s. True", OF _ _ run] by blast
  then have run': "bucle c rs ?ro (HR_objetivo c / 100 * rs) 0 (nat n)
           (estado_inicial (HR0 c / 100 * rs)) = Inr (ts, rhs, t, mi, mc, rs)"
    using run by simp
  have mc: "mc = (\<Sum>\<rho>\<leftarrow>butlast rhs. ?E \<rho> + perdida_cond c rs \<rho>)"
    by (rule bucle_masa_condensada[OF run']) (simp_all add: estado_inicial_def)
  have zero: "perdida_cond c rs \<rho> = 0" if "\<rho> \<in> set (butlast rhs)" for \<rho>
    using that assms(3) by (simp add: perdida_cond_proporcional[OF assms(1)])
  have "(\<Sum>\<rho>\<leftarrow>butlast rhs. ?E \<rho> + perdida_cond c rs \<rho>) = (\<Sum>\<rho>\<leftarrow>butlast rhs. ?E \<rho>)"
    by (rule arg_cong[where f = sum_list], rule map_cong) (simp_all add: zero)
  then have 2: "mc = (\<Sum>\<rho>\<leftarrow>butlast rhs. ?E \<rho>)" using mc by simp
  have 3: "mc = 0" if all: "\<forall>\<rho>\<in>set rhs. \<rho> < rs"
  proof -
    have cons: "\<forall>j. Suc j < length rhs \<longrightarrow>
           V c \<noteq> 0 \<and> rhs ! Suc j = min (max 0 (nueva_masa c rs ?ro (rhs ! j) / V c)) rs"
      by (rule bucle_rhos_consecutivas[OF run']) (simp_all add: estado_inicial_def)
    have "?E \<rho> = 0" if m: "\<rho> \<in> set (butlast rhs)" for \<rho>
    proof -
      from m obtain j where j: "j < length (butlast rhs)" and e: "butlast rhs ! j = \<rho>"
        by (auto simp: in_set_conv_nth)
      then have sj: "Suc j < length rhs" by simp
      have "\<rho> = rhs ! j" using e j by (simp add: nth_butlast)
      then have "rhs ! Suc j = min (max 0 (nueva_masa c rs ?ro \<rho> / V c)) rs"
        using cons sj by simp
      moreover have "rhs ! Suc j < rs" using all sj by simp
      ultimately have "max 0 (nueva_masa c rs ?ro \<rho> / V c) < rs" by (simp add: min_def split: if_splits)
      then have "\<not> max 0 (nueva_masa c rs ?ro \<rho> / V c) > rs" by linarith
      then show ?thesis unfolding exceso_limite_def by (simp only: if_False)
    qed
    then have "(\<Sum>\<rho>\<leftarrow>butlast rhs. ?E \<rho>) = (\<Sum>\<rho>\<leftarrow>butlast rhs. 0)"
      by (intro arg_cong[where f = sum_list] map_cong) simp_all
    then show ?thesis using 2 by simp
  qed
  show ?thesis using perdida_cond_proporcional[OF assms(1)] 2 3 by blast
qed

theorem condensacion_proporcional_witness:
  "modo_cond ejemplo_proporcional \<noteq> ''fijo''
   \<and> simular_relleno ejemplo_proporcional =
       Inr ([0, 1], [1655588 / 682875, 3311176 / 682875], Some 1, 3, 393037 / 682875,
            3311176 / 682875)
   \<and> list_all (\<lambda>\<rho>. \<rho> < 3311176 / 682875) (butlast [1655588 / 682875, 3311176 / 682875 :: real])
   \<and> (393037 / 682875 :: real) =
       (\<Sum>\<rho>\<leftarrow>butlast [1655588 / 682875, 3311176 / 682875].
          exceso_limite ejemplo_proporcional (3311176 / 682875)
            (max 0 (nueva_masa ejemplo_proporcional (3311176 / 682875)
                      (HR_out ejemplo_proporcional / 100 * (3311176 / 682875)) \<rho>
                    / V ejemplo_proporcional)))"
  using condensacion_proporcional[of ejemplo_proporcional "[0, 1]"
      "[1655588 / 682875, 3311176 / 682875]" "Some 1" 3 "393037 / 682875" "3311176 / 682875"]
    ejemplo_proporcional_run
  by (simp add: ejemplo_proporcional_def)

subsection \<open>The number of steps and the arrival time\<close>

lemma bucle_pasos:
  assumes "bucle c rs ro obj i k s = Inr (ts, rhs, t, mi, mc, r)"
  shows "\<exists>ns. rhs = rhos s @ ns \<and> length ns \<le> k
    \<and> ts = tiempos s @ map (\<lambda>j. (real j + 1) * dt c) [i..<i + length ns]
    \<and> mi = masa_inyectada s + real (length ns) * masa_in c
    \<and> (\<forall>\<rho>\<in>set (butlast ns). \<rho> < obj)
    \<and> (case t of None \<Rightarrow> length ns = k \<and> (\<forall>\<rho>\<in>set ns. \<rho> < obj)
         | Some \<tau> \<Rightarrow> ns \<noteq> [] \<and> obj \<le> last ns \<and> \<tau> = real (i + length ns) * dt c)"
  using assms
proof (induction k arbitrary: i s)
  case 0
  then show ?case by (simp add: devolver_def)
next
  case (Suc k)
  from Suc.prems obtain s' where p: "paso c rs ro i s = Inr s'"
    by (auto split: sum.splits)
  note q = paso_Inr_iff[OF p]
  define x where "x = min (max 0 (nueva_masa c rs ro (rho_v s) / V c)) rs"
  have rv: "rho_v s' = x" and rh: "rhos s' = rhos s @ [x]"
    and tm: "tiempos s' = tiempos s @ [(real i + 1) * dt c]"
    and mi': "masa_inyectada s' = masa_inyectada s + masa_in c"
    using q by (simp_all add: x_def)
  show ?case
  proof (cases "obj \<le> x")
    case True
    then have res: "ts = tiempos s'" "rhs = rhos s'" "t = Some ((real i + 1) * dt c)"
      "mi = masa_inyectada s'"
      using Suc.prems p rv by (simp_all add: devolver_def)
    show ?thesis
      by (rule exI[where x = "[x]"]) (use res rh tm mi' True in \<open>simp add: add.commute\<close>)
  next
    case False
    then have "bucle c rs ro obj (Suc i) k s' = Inr (ts, rhs, t, mi, mc, r)"
      using Suc.prems p rv by simp
    from Suc.IH[OF this] obtain ns where ns:
      "rhs = rhos s' @ ns" "length ns \<le> k"
      "ts = tiempos s' @ map (\<lambda>j. (real j + 1) * dt c) [Suc i..<Suc i + length ns]"
      "mi = masa_inyectada s' + real (length ns) * masa_in c"
      "\<forall>\<rho>\<in>set (butlast ns). \<rho> < obj"
      "case t of None \<Rightarrow> length ns = k \<and> (\<forall>\<rho>\<in>set ns. \<rho> < obj)
         | Some \<tau> \<Rightarrow> ns \<noteq> [] \<and> obj \<le> last ns \<and> \<tau> = real (Suc i + length ns) * dt c"
      by blast
    have u: "[i..<i + length (x # ns)] = i # [Suc i..<Suc i + length ns]"
    proof -
      have "i < i + length (x # ns)" by simp
      then have "[i..<i + length (x # ns)] = i # [Suc i..<i + length (x # ns)]"
        by (rule upt_conv_Cons)
      moreover have "i + length (x # ns) = Suc i + length ns" by simp
      ultimately show ?thesis by (simp only:)
    qed
    have 1: "rhs = rhos s @ (x # ns)" using ns(1) rh by simp
    have 2: "length (x # ns) \<le> Suc k" using ns(2) by simp
    have 3: "ts = tiempos s @ map (\<lambda>j. (real j + 1) * dt c) [i..<i + length (x # ns)]"
      unfolding u using ns(3) tm by simp
    have 4: "mi = masa_inyectada s + real (length (x # ns)) * masa_in c"
      using ns(4) mi' by (simp add: algebra_simps)
    have 5: "\<forall>\<rho>\<in>set (butlast (x # ns)). \<rho> < obj"
      using ns(5) False by simp
    have 6: "case t of None \<Rightarrow> length (x # ns) = Suc k \<and> (\<forall>\<rho>\<in>set (x # ns). \<rho> < obj)
         | Some \<tau> \<Rightarrow> x # ns \<noteq> [] \<and> obj \<le> last (x # ns)
                     \<and> \<tau> = real (i + length (x # ns)) * dt c"
      using ns(6) False by (cases t) simp_all
    show ?thesis
      by (rule exI[where x = "x # ns"]) (use 1 2 3 4 5 6 in blast)
  qed
qed

lemma ejemplo_desborde_run: "simular_relleno ejemplo_desborde = Inl OverflowError"
proof -
  have "tiempo_max ejemplo_desborde / dt ejemplo_desborde = 2 ^ 1040"
    by (simp add: ejemplo_desborde_def)
  moreover have "desborda (2 ^ 1040)" by (simp add: desborda_def)
  moreover have "dt ejemplo_desborde \<noteq> 0" by (simp add: ejemplo_desborde_def)
  ultimately have "pasos_max ejemplo_desborde = Inl OverflowError"
    by (simp add: pasos_max_def)
  moreover have "T ejemplo_desborde = 0" by (simp add: ejemplo_desborde_def)
  ultimately show ?thesis
    by (simp add: simular_relleno_def rho_desde_HR_def rho_saturacion_def
        presion_saturacion_def Let_def)
qed

text \<open>
  Claim C7 states that the loop runs \<open>floor (tiempo_max / dt)\<close> steps and that the
  result then reports whether the target was reached. The quotient is a float
  division, which gives infinity when it overflows, and \<^verbatim>\<open>int\<close> raises
  \<^verbatim>\<open>OverflowError\<close> on infinity: on \<open>ejemplo_desborde\<close>, valid arguments with a
  horizon of \<open>2 ^ 1000\<close> and a step of \<open>2 ^ -40\<close>, the simulation runs no step and
  returns no result.
\<close>

theorem pasos_desborde_counterexample:
  "0 < V ejemplo_desborde \<and> 0 < dt ejemplo_desborde \<and> 0 < tiempo_max ejemplo_desborde
   \<and> 0 \<le> dotm ejemplo_desborde \<and> 0 \<le> ACH ejemplo_desborde
   \<and> 0 \<le> k_cond ejemplo_desborde
   \<and> 0 \<le> HR0 ejemplo_desborde \<and> HR0 ejemplo_desborde \<le> 100
   \<and> 0 \<le> HR_out ejemplo_desborde \<and> HR_out ejemplo_desborde \<le> 100
   \<and> simular_relleno ejemplo_desborde = Inl OverflowError"
  using ejemplo_desborde_run by (simp add: ejemplo_desborde_def)

text \<open>
  Claim C7, amended. For a temperature above \<open>-243.12\<close>, a positive volume, a
  positive time step and a non-negative horizon whose quotient \<open>tiempo_max / dt\<close>
  does not overflow: \<open>pasos_max\<close> is the floor of the rounded quotient, the loop
  ranges over that many indices, and the simulation returns the initial sample
  followed by one sample per executed step, with as many times as samples, and both
  totals. The arrival time is \<open>None\<close> exactly when no density recorded after a step
  reaches the target density, and then all steps of the range were executed;
  otherwise it is the time of the last sample, the first to reach the target.
\<close>

theorem pasos_y_objetivo:
  assumes "- 243.12 < T c" and "0 < V c" and "0 < dt c" and "0 \<le> tiempo_max c"
    and "\<not> desborda (tiempo_max c / dt c)"
  shows "\<exists>ts \<rho>0 ns t mi mc rs.
           simular_relleno c = Inr (ts, \<rho>0 # ns, t, mi, mc, rs)
         \<and> pasos_max c = Inr \<lfloor>redondear (tiempo_max c / dt c)\<rfloor>
         \<and> length ns \<le> nat \<lfloor>redondear (tiempo_max c / dt c)\<rfloor>
         \<and> length ts = Suc (length ns)
         \<and> (t = None \<longleftrightarrow> (\<forall>\<rho>\<in>set ns. \<rho> < HR_objetivo c / 100 * rs))
         \<and> (t = None \<longrightarrow> length ns = nat \<lfloor>redondear (tiempo_max c / dt c)\<rfloor>)
         \<and> (\<forall>\<tau>. t = Some \<tau> \<longrightarrow>
               ns \<noteq> [] \<and> \<tau> = last ts
             \<and> HR_objetivo c / 100 * rs \<le> last ns
             \<and> (\<forall>\<rho>\<in>set (butlast ns). \<rho> < HR_objetivo c / 100 * rs))"
proof -
  obtain rs where rs: "rho_saturacion (T c) = Inr rs"
    using rho_saturacion_Inr[OF assms(1)] by blast
  have "0 \<le> tiempo_max c / dt c" using assms(3,4) by simp
  then have q: "0 \<le> redondear (tiempo_max c / dt c)" by (rule redondear_nonneg)
  have dt0: "dt c \<noteq> 0" using assms(3) by simp
  have n: "pasos_max c = Inr \<lfloor>redondear (tiempo_max c / dt c)\<rfloor>"
    using pasos_max_Inr[OF dt0 assms(5)] q by simp
  let ?N = "nat \<lfloor>redondear (tiempo_max c / dt c)\<rfloor>"
  let ?obj = "HR_objetivo c / 100 * rs"
  let ?s0 = "estado_inicial (HR0 c / 100 * rs)"
  have run: "simular_relleno c = bucle c rs (HR_out c / 100 * rs) ?obj 0 ?N ?s0"
    using simular_relleno_bucle[OF rs n] .
  have "V c \<noteq> 0" using assms(2) by simp
  from bucle_Inr[OF this] obtain ts rhs t mi mc r where
    res: "bucle c rs (HR_out c / 100 * rs) ?obj 0 ?N ?s0 = Inr (ts, rhs, t, mi, mc, r)"
    by (metis prod_cases6)
  have r: "r = rs"
    using bucle_invariante[where P = "\<lambda>s. True", OF _ _ res] by blast
  from bucle_pasos[OF res] obtain ns where ns:
    "rhs = rhos ?s0 @ ns" "length ns \<le> ?N"
    "ts = tiempos ?s0 @ map (\<lambda>j. (real j + 1) * dt c) [0..<0 + length ns]"
    "mi = masa_inyectada ?s0 + real (length ns) * masa_in c"
    "\<forall>\<rho>\<in>set (butlast ns). \<rho> < ?obj"
    "case t of None \<Rightarrow> length ns = ?N \<and> (\<forall>\<rho>\<in>set ns. \<rho> < ?obj)
       | Some \<tau> \<Rightarrow> ns \<noteq> [] \<and> ?obj \<le> last ns \<and> \<tau> = real (0 + length ns) * dt c"
    by blast
  have 1: "simular_relleno c = Inr (ts, (HR0 c / 100 * rs) # ns, t, mi, mc, rs)"
    using run res r ns(1) by (simp add: estado_inicial_def)
  have 2: "length ts = Suc (length ns)"
    using ns(3) by (simp add: estado_inicial_def)
  have ult: "last ts = real (length ns) * dt c" if "ns \<noteq> []"
  proof -
    from that have "0 < length ns" by simp
    then obtain k where k: "length ns = Suc k" by (auto simp: gr0_conv_Suc)
    have "ts = (0 # map (\<lambda>j. (real j + 1) * dt c) [0..<k]) @ [(real k + 1) * dt c]"
      using ns(3) by (simp add: estado_inicial_def k)
    then have "last ts = (real k + 1) * dt c" by (simp only: last_snoc)
    then show ?thesis by (simp add: k)
  qed
  have 4: "t = None \<longleftrightarrow> (\<forall>\<rho>\<in>set ns. \<rho> < ?obj)"
  proof (cases t)
    case None
    then show ?thesis using ns(6) by simp
  next
    case (Some \<tau>)
    then have "ns \<noteq> []" "?obj \<le> last ns" using ns(6) by simp_all
    then have "\<exists>\<rho>\<in>set ns. \<not> \<rho> < ?obj" using last_in_set[of ns] by (metis not_less)
    then show ?thesis using Some by blast
  qed
  have 5: "t = None \<longrightarrow> length ns = ?N" using ns(6) by (cases t) simp_all
  have 6: "\<forall>\<tau>. t = Some \<tau> \<longrightarrow>
               ns \<noteq> [] \<and> \<tau> = last ts \<and> ?obj \<le> last ns
             \<and> (\<forall>\<rho>\<in>set (butlast ns). \<rho> < ?obj)"
    using ns(5,6) ult by (cases t) simp_all
  show ?thesis using 1 n ns(2) 2 4 5 6 by blast
qed

theorem pasos_y_objetivo_witness:
  "- 243.12 < T ejemplo_por_defecto \<and> 0 < V ejemplo_por_defecto
   \<and> 0 < dt ejemplo_por_defecto \<and> 0 \<le> tiempo_max ejemplo_por_defecto
   \<and> \<not> desborda (tiempo_max ejemplo_por_defecto / dt ejemplo_por_defecto)
   \<and> pasos_max ejemplo_por_defecto = Inr 6000
   \<and> (\<exists>ts \<rho>0 ns t mi mc rs.
          simular_relleno ejemplo_por_defecto = Inr (ts, \<rho>0 # ns, t, mi, mc, rs)
        \<and> pasos_max ejemplo_por_defecto =
            Inr \<lfloor>redondear (tiempo_max ejemplo_por_defecto / dt ejemplo_por_defecto)\<rfloor>
        \<and> length ns \<le>
            nat \<lfloor>redondear (tiempo_max ejemplo_por_defecto / dt ejemplo_por_defecto)\<rfloor>
        \<and> length ts = Suc (length ns)
        \<and> (t = None \<longleftrightarrow> (\<forall>\<rho>\<in>set ns. \<rho> < HR_objetivo ejemplo_por_defecto / 100 * rs))
        \<and> (t = None \<longrightarrow> length ns =
              nat \<lfloor>redondear (tiempo_max ejemplo_por_defecto / dt ejemplo_por_defecto)\<rfloor>)
        \<and> (\<forall>\<tau>. t = Some \<tau> \<longrightarrow>
              ns \<noteq> [] \<and> \<tau> = last ts
            \<and> HR_objetivo ejemplo_por_defecto / 100 * rs \<le> last ns
            \<and> (\<forall>\<rho>\<in>set (butlast ns). \<rho> < HR_objetivo ejemplo_por_defecto / 100 * rs)))"
proof -
  have d: "dt ejemplo_por_defecto = redondear 0.01"
    and t: "tiempo_max ejemplo_por_defecto = 60"
    and v: "V ejemplo_por_defecto = redondear 0.2"
    by (simp_all add: ejemplo_por_defecto_def)
  have 1: "- 243.12 < T ejemplo_por_defecto" by (simp add: ejemplo_por_defecto_def)
  have 2: "0 < V ejemplo_por_defecto" unfolding v redondear_0_2 by simp
  have 3: "0 < dt ejemplo_por_defecto" unfolding d redondear_0_01 by simp
  have 4: "0 \<le> tiempo_max ejemplo_por_defecto" unfolding t by simp
  have 5: "\<not> desborda (tiempo_max ejemplo_por_defecto / dt ejemplo_por_defecto)"
    unfolding d t redondear_0_01 by (rule no_desborda_pequeno) simp
  show ?thesis
    by (rule conjI[OF 1 conjI[OF 2 conjI[OF 3 conjI[OF 4 conjI[OF 5
          conjI[OF pasos_max_por_defecto pasos_y_objetivo[OF 1 2 3 4 5]]]]]]])
qed

subsection \<open>Without injection the target is not reached, unless ventilation brings vapour in\<close>







subsection \<open>The saturation density is positive and increasing at room temperature\<close>






















subsection \<open>Arguments are not validated\<close>




subsection \<open>A target already met by the initial sample\<close>

text \<open>
  Claim C4 states that the arrival time is 0 when the target relative humidity is
  at most the initial one. The loop compares the density with the target only after
  a step, never the initial sample: on \<open>ejemplo_objetivo_inicial\<close>, where the target
  equals the initial relative humidity and the density then falls, the simulation
  runs to the horizon and returns \<open>None\<close>, although the sample at time 0 is at the
  target.
\<close>

theorem objetivo_inicial_no_detectado:
  "HR_objetivo ejemplo_objetivo_inicial \<le> HR0 ejemplo_objetivo_inicial
   \<and> simular_relleno ejemplo_objetivo_inicial =
       Inr ([0, 1, 2], [1655588 / 682875, 972713 / 682875, 289838 / 682875],
            None, 0, 2, 3311176 / 682875)"
  using ejemplo_objetivo_inicial_run by (simp add: ejemplo_objetivo_inicial_def)

subsection \<open>Any mode other than \<^verbatim>\<open>'fijo'\<close> is the proportional mode\<close>

lemma perdida_cond_no_fijo:
  assumes "modo_cond c \<noteq> ''fijo''"
  shows "perdida_cond (c\<lparr>modo_cond := ''proporcional''\<rparr>) rs rho = perdida_cond c rs rho"
  using assms by (simp add: perdida_cond_def)

lemma paso_no_fijo:
  assumes "modo_cond c \<noteq> ''fijo''"
  shows "paso (c\<lparr>modo_cond := ''proporcional''\<rparr>) rs ro i s = paso c rs ro i s"
  using assms
  by (simp add: paso_def nuevo_rho_def nueva_masa_def perdida_cond_no_fijo masa_actual_def
      masa_in_def perdida_vent_def Q_def)

lemma bucle_no_fijo:
  assumes "modo_cond c \<noteq> ''fijo''"
  shows "bucle (c\<lparr>modo_cond := ''proporcional''\<rparr>) rs ro obj i k s = bucle c rs ro obj i k s"
  by (induction k arbitrary: i s) (simp_all add: paso_no_fijo[OF assms] split: sum.splits)

lemma ejemplo_modo_desconocido_run:
  "simular_relleno ejemplo_modo_desconocido =
     Inr ([0, 1], [1655588 / 227625, 1655588 / 682875], None, 0, 3311176 / 682875,
          3311176 / 682875)"
  by (simp add: simular_relleno_def rho_desde_HR_def rho_saturacion_def
      presion_saturacion_def ejemplo_modo_desconocido_def pasos_max_def desborda_def
      redondear_1 estado_inicial_def paso_def nuevo_rho_def nueva_masa_def masa_actual_def
      masa_in_def perdida_vent_def perdida_cond_def Q_def devolver_def Let_def)

text \<open>
  Claim C10. With a mode string other than \<^verbatim>\<open>'fijo'\<close>: the condensation loss of
  a step is the proportional one, \<open>max 0 (rho - rho_sat) * V * k_cond * dt\<close>; the
  simulation is the one of the mode \<^verbatim>\<open>'proporcional'\<close> on the same arguments, the
  same result or the same error, so the mode string itself is never rejected; and
  in a returned result every recorded density follows from the one before it by the
  balance with the proportional loss, limited to saturation, and the condensed total
  is the sum over the steps of the excess of the saturation limit and the
  proportional loss.
\<close>

theorem modo_no_fijo_es_proporcional:
  assumes "modo_cond c \<noteq> ''fijo''"
  shows "(\<forall>rs \<rho>. perdida_cond c rs \<rho> = max 0 (\<rho> - rs) * V c * k_cond c * dt c)
       \<and> simular_relleno c = simular_relleno (c\<lparr>modo_cond := ''proporcional''\<rparr>)
       \<and> (\<forall>ts rhs t mi mc rs. simular_relleno c = Inr (ts, rhs, t, mi, mc, rs) \<longrightarrow>
            (\<forall>j. Suc j < length rhs \<longrightarrow>
               rhs ! Suc j =
                 min (max 0 ((rhs ! j * V c + dotm c * dt c
                      - ACH c * V c / 60 * (rhs ! j - HR_out c / 100 * rs) * dt c
                      - max 0 (rhs ! j - rs) * V c * k_cond c * dt c) / V c)) rs)
          \<and> mc = (\<Sum>\<rho>\<leftarrow>butlast rhs.
                    exceso_limite c rs (max 0 (nueva_masa c rs (HR_out c / 100 * rs) \<rho> / V c))
                    + max 0 (\<rho> - rs) * V c * k_cond c * dt c))"
proof -
  note pc = perdida_cond_proporcional[OF assms]
  have 2: "simular_relleno c = simular_relleno (c\<lparr>modo_cond := ''proporcional''\<rparr>)"
    by (simp add: simular_relleno_def pasos_max_def bucle_no_fijo[OF assms] Let_def
        split: sum.splits)
  have 3: "(\<forall>j. Suc j < length rhs \<longrightarrow>
               rhs ! Suc j =
                 min (max 0 ((rhs ! j * V c + dotm c * dt c
                      - ACH c * V c / 60 * (rhs ! j - HR_out c / 100 * rs) * dt c
                      - max 0 (rhs ! j - rs) * V c * k_cond c * dt c) / V c)) rs)
          \<and> mc = (\<Sum>\<rho>\<leftarrow>butlast rhs.
                    exceso_limite c rs (max 0 (nueva_masa c rs (HR_out c / 100 * rs) \<rho> / V c))
                    + max 0 (\<rho> - rs) * V c * k_cond c * dt c)"
    if ret: "simular_relleno c = Inr (ts, rhs, t, mi, mc, rs)" for ts rhs t mi mc rs
  proof -
    let ?ro = "HR_out c / 100 * rs"
    from ret obtain rs' n where
      run: "bucle c rs' (HR_out c / 100 * rs') (HR_objetivo c / 100 * rs') 0 (nat n)
             (estado_inicial (HR0 c / 100 * rs')) = Inr (ts, rhs, t, mi, mc, rs)"
      by (rule simular_relleno_Inr)
    have "rs = rs'"
      using bucle_invariante[where P = "\<lambda>s. True", OF _ _ run] by blast
    then have run': "bucle c rs ?ro (HR_objetivo c / 100 * rs) 0 (nat n)
             (estado_inicial (HR0 c / 100 * rs)) = Inr (ts, rhs, t, mi, mc, rs)"
      using run by simp
    have nm: "nueva_masa c rs ?ro \<rho> =
        \<rho> * V c + dotm c * dt c - ACH c * V c / 60 * (\<rho> - ?ro) * dt c
        - max 0 (\<rho> - rs) * V c * k_cond c * dt c" for \<rho>
      by (simp add: nueva_masa_def masa_actual_def masa_in_def perdida_vent_def Q_def pc)
    have "\<forall>j. Suc j < length rhs \<longrightarrow>
           V c \<noteq> 0 \<and> rhs ! Suc j = min (max 0 (nueva_masa c rs ?ro (rhs ! j) / V c)) rs"
      by (rule bucle_rhos_consecutivas[OF run']) (simp_all add: estado_inicial_def)
    then have a: "\<forall>j. Suc j < length rhs \<longrightarrow>
               rhs ! Suc j =
                 min (max 0 ((rhs ! j * V c + dotm c * dt c
                      - ACH c * V c / 60 * (rhs ! j - ?ro) * dt c
                      - max 0 (rhs ! j - rs) * V c * k_cond c * dt c) / V c)) rs"
      by (simp only: nm) blast
    have "mc = (\<Sum>\<rho>\<leftarrow>butlast rhs.
              exceso_limite c rs (max 0 (nueva_masa c rs ?ro \<rho> / V c)) + perdida_cond c rs \<rho>)"
      by (rule bucle_masa_condensada[OF run']) (simp_all add: estado_inicial_def)
    then have b: "mc = (\<Sum>\<rho>\<leftarrow>butlast rhs.
                    exceso_limite c rs (max 0 (nueva_masa c rs ?ro \<rho> / V c))
                    + max 0 (\<rho> - rs) * V c * k_cond c * dt c)"
      by (simp only: pc)
    show ?thesis using a b by blast
  qed
  show ?thesis using pc 2 3 by blast
qed

theorem modo_no_fijo_es_proporcional_witness:
  "modo_cond ejemplo_modo_desconocido \<noteq> ''fijo''
   \<and> modo_cond ejemplo_modo_desconocido \<noteq> ''proporcional''
   \<and> perdida_cond ejemplo_modo_desconocido (3311176 / 682875) (1655588 / 227625) =
       3311176 / 682875
   \<and> simular_relleno ejemplo_modo_desconocido =
       Inr ([0, 1], [1655588 / 227625, 1655588 / 682875], None, 0, 3311176 / 682875,
            3311176 / 682875)
   \<and> simular_relleno (ejemplo_modo_desconocido\<lparr>modo_cond := ''proporcional''\<rparr>) =
       Inr ([0, 1], [1655588 / 227625, 1655588 / 682875], None, 0, 3311176 / 682875,
            3311176 / 682875)"
proof -
  have m: "modo_cond ejemplo_modo_desconocido \<noteq> ''fijo''"
    by (simp add: ejemplo_modo_desconocido_def)
  note th = modo_no_fijo_es_proporcional[OF m]
  have "perdida_cond ejemplo_modo_desconocido (3311176 / 682875) (1655588 / 227625) =
      max 0 (1655588 / 227625 - 3311176 / 682875) * V ejemplo_modo_desconocido
        * k_cond ejemplo_modo_desconocido * dt ejemplo_modo_desconocido"
    using th by blast
  then have 1: "perdida_cond ejemplo_modo_desconocido (3311176 / 682875) (1655588 / 227625) =
      3311176 / 682875"
    by (simp add: ejemplo_modo_desconocido_def)
  have 2: "simular_relleno (ejemplo_modo_desconocido\<lparr>modo_cond := ''proporcional''\<rparr>) =
      simular_relleno ejemplo_modo_desconocido"
    using th by simp
  show ?thesis using m 1 2 ejemplo_modo_desconocido_run
    by (simp add: ejemplo_modo_desconocido_def)
qed

end
